theory Spec2Isabelle
  imports Main
begin

section \<open>Data model of api_service.py\<close>

text \<open>
  Python strings are modelled as \<^typ>\<open>string\<close>, read as their UTF-8 bytes. The three
  pydantic models of the service become records; \<open>ProductDetails\<close> extends
  \<open>ProductBase\<close> as the Python class does, its five attributes being \<open>Optional[str]\<close>.
\<close>

record ProductBase =
  name :: string
  link :: string
  img :: string

record ProductDetails = ProductBase +
  Battery :: "string option"
  Max_Puff :: "string option"
  Display :: "string option"
  Nicotine :: "string option"
  E_liquid_Capacity :: "string option"

record SearchRequest =
  search_keyword :: string
  existing_product_names :: "string list"

text \<open>
  Exceptions are values. \<open>TypeError\<close> is what Python raises when \<open>None\<close> is iterated or a
  keyword argument is given twice, \<open>ValidationError\<close> is pydantic's, and \<open>External msg\<close> is
  any exception raised by the browser automation or by the semantic query layer.
\<close>

datatype py_error = TypeError | ValidationError | External string

text \<open>
  A flat Python dict whose values are text or \<open>None\<close>, as the query layer returns for
  a query whose fields are leaves: an association list read with \<^const>\<open>map_of\<close>.
\<close>

type_synonym py_dict = "(string \<times> string option) list"

text \<open>\<open>d.get(k)\<close>: \<open>None\<close> when the key is missing, else the stored value.\<close>

definition dict_get :: "py_dict \<Rightarrow> string \<Rightarrow> string option" where
  "dict_get d k = (case map_of d k of None \<Rightarrow> None | Some v \<Rightarrow> v)"

text \<open>
  \<open>ProductBase(**d)\<close>: pydantic requires \<open>name\<close>, \<open>link\<close> and \<open>img\<close> to be present
  and to be text; other keys are ignored. \<open>p.dict()\<close> is the converse.
\<close>

definition ProductBase_kwargs :: "py_dict \<Rightarrow> py_error + ProductBase" where
  "ProductBase_kwargs d =
     (case dict_get d ''name'' of
        None \<Rightarrow> Inl ValidationError
      | Some n \<Rightarrow>
     (case dict_get d ''link'' of
        None \<Rightarrow> Inl ValidationError
      | Some l \<Rightarrow>
     (case dict_get d ''img'' of
        None \<Rightarrow> Inl ValidationError
      | Some i \<Rightarrow> Inr \<lparr>name = n, link = l, img = i\<rparr>)))"

definition ProductBase_dict :: "ProductBase \<Rightarrow> py_dict" where
  "ProductBase_dict p =
     [(''name'', Some (name p)), (''link'', Some (link p)), (''img'', Some (img p))]"

text \<open>
  \<open>ProductDetails(**a, **b)\<close>: Python raises \<open>TypeError\<close> when a key occurs in both
  dicts; otherwise pydantic validates the identity fields and reads the five optional
  attributes, absent ones defaulting to \<open>None\<close>.
\<close>

definition ProductDetails_kwargs :: "py_dict \<Rightarrow> py_dict \<Rightarrow> py_error + ProductDetails" where
  "ProductDetails_kwargs a b =
     (if set (map fst a) \<inter> set (map fst b) \<noteq> {} then Inl TypeError
      else
        (case ProductBase_kwargs (a @ b) of
           Inl e \<Rightarrow> Inl e
         | Inr base \<Rightarrow>
             Inr \<lparr>name = name base, link = link base, img = img base,
                  Battery = dict_get (a @ b) ''Battery'',
                  Max_Puff = dict_get (a @ b) ''Max_Puff'',
                  Display = dict_get (a @ b) ''Display'',
                  Nicotine = dict_get (a @ b) ''Nicotine'',
                  E_liquid_Capacity = dict_get (a @ b) ''E_liquid_Capacity''\<rparr>))"

section \<open>The browser and the query layer\<close>

text \<open>
  What the service does to the outside world is recorded as a trace of events: page
  navigations, mouse-wheel scrolls, structured queries and lines written by
  \<open>logging.error\<close>.
\<close>

datatype query = PRODUCT_DETAIL_QUERY | PRODUCT_INFO_QUERY | PRODUCT_LIST_QUERY

datatype log_record =
    Error_fetching_details string py_error
  | Error_fetching_products py_error
  | Error_processing_product py_error

datatype event =
    Goto string
  | Wheel int int
  | Wait_for_load_state
  | Query_data string query
  | Logging_error log_record

text \<open>A response event delivered to \<open>page.on("response", ...)\<close>.\<close>

record response =
  url :: string
  status :: int
  headers :: "(string \<times> string) list"

text \<open>
  The web site and the query layer are a parameter of every function: for each page
  address, whether \<open>goto\<close> and \<open>mouse.wheel\<close> raise, and what each of the three queries
  answers on the page loaded from there. The navigation of \<open>search_and_scrape\<close>, made on
  a page with a response listener, has an outcome of its own: the responses that the
  listener has handled, in their order, when \<open>wait_for_load_state\<close> returns. Launching
  and closing the browser and opening contexts and pages are taken to succeed.
\<close>

record world =
  goto_outcome :: "string \<Rightarrow> py_error option"
  wheel_outcome :: "string \<Rightarrow> int \<Rightarrow> int \<Rightarrow> py_error option"
  list_query_outcome :: "string \<Rightarrow> py_error + (string \<times> py_dict list) list"
  detail_query_outcome :: "string \<Rightarrow> py_error + py_dict"
  info_query_outcome :: "string \<Rightarrow> py_error + py_dict"
  search_goto_outcome :: "string \<Rightarrow> py_error + response list"
  load_state_outcome :: "string \<Rightarrow> py_error option"

text \<open>
  A computation yields the events it caused and either the exception it raised or its
  value. \<open>io_bind\<close> is sequencing (an exception skips the rest), \<open>try_except\<close> is
  \<open>try: ... except Exception as e: ...\<close>.
\<close>

type_synonym 'a io = "event list \<times> (py_error + 'a)"

definition io_return :: "'a \<Rightarrow> 'a io" where
  "io_return x = ([], Inr x)"

definition io_raise :: "py_error \<Rightarrow> 'a io" where
  "io_raise e = ([], Inl e)"

definition io_bind :: "'a io \<Rightarrow> ('a \<Rightarrow> 'b io) \<Rightarrow> 'b io" where
  "io_bind m f =
     (case m of
        (evs, Inl e) \<Rightarrow> (evs, Inl e)
      | (evs, Inr x) \<Rightarrow> (case f x of (evs', r) \<Rightarrow> (evs @ evs', r)))"

definition try_except :: "'a io \<Rightarrow> (py_error \<Rightarrow> 'a io) \<Rightarrow> 'a io" where
  "try_except m handler =
     (case m of
        (evs, Inl e) \<Rightarrow> (case handler e of (evs', r) \<Rightarrow> (evs @ evs', r))
      | (evs, Inr x) \<Rightarrow> (evs, Inr x))"

definition io_lift :: "py_error + 'a \<Rightarrow> 'a io" where
  "io_lift r = ([], r)"

definition io_unit :: "py_error option \<Rightarrow> py_error + unit" where
  "io_unit r = (case r of None \<Rightarrow> Inr () | Some e \<Rightarrow> Inl e)"

definition page_goto :: "world \<Rightarrow> string \<Rightarrow> unit io" where
  "page_goto w page_url = ([Goto page_url], io_unit (goto_outcome w page_url))"

definition mouse_wheel :: "world \<Rightarrow> string \<Rightarrow> int \<Rightarrow> int \<Rightarrow> unit io" where
  "mouse_wheel w page_url dx dy = ([Wheel dx dy], io_unit (wheel_outcome w page_url dx dy))"

definition query_list :: "world \<Rightarrow> string \<Rightarrow> (string \<times> py_dict list) list io" where
  "query_list w page_url = ([Query_data page_url PRODUCT_LIST_QUERY], list_query_outcome w page_url)"

definition query_detail :: "world \<Rightarrow> string \<Rightarrow> py_dict io" where
  "query_detail w page_url =
     ([Query_data page_url PRODUCT_DETAIL_QUERY], detail_query_outcome w page_url)"

definition query_info :: "world \<Rightarrow> string \<Rightarrow> py_dict io" where
  "query_info w page_url = ([Query_data page_url PRODUCT_INFO_QUERY], info_query_outcome w page_url)"

definition logging_error :: "log_record \<Rightarrow> unit io" where
  "logging_error r = ([Logging_error r], Inr ())"

section \<open>Detail extraction\<close>

text \<open>
  \<open>fetch_product_details(context, url, product=None)\<close>, lines 28 to 71. Navigation and
  scrolling (lines 30 and 31) stand before the \<open>try\<close> of line 51. Its body \<open>fetch_product_details_try\<close> holds the two queries and
  the construction of the records; its handler \<open>fetch_product_details_except\<close> logs
  the product's name, or \<open>Unknown\<close>, and returns \<open>None\<close>.
\<close>

definition fetch_product_details_try ::
  "world \<Rightarrow> string \<Rightarrow> ProductBase option \<Rightarrow> ProductDetails option io" where
  "fetch_product_details_try w page_url product =
     io_bind (query_detail w page_url) (\<lambda>detail_response.
     io_bind
       (case product of
          None \<Rightarrow>
            io_bind (query_info w page_url) (\<lambda>product_info.
            io_lift (ProductBase_kwargs
              [(''name'', dict_get product_info ''product_name''),
               (''link'', dict_get product_info ''product_link''),
               (''img'', dict_get product_info ''product_img'')]))
        | Some p \<Rightarrow> io_lift (ProductBase_kwargs (ProductBase_dict p)))
       (\<lambda>product_details.
     io_bind (io_lift (ProductDetails_kwargs (ProductBase_dict product_details) detail_response))
       (\<lambda>details. io_return (Some details))))"

definition fetch_product_details_except ::
  "ProductBase option \<Rightarrow> py_error \<Rightarrow> ProductDetails option io" where
  "fetch_product_details_except product e =
     (let product_name = (case product of Some p \<Rightarrow> name p | None \<Rightarrow> ''Unknown'') in
      io_bind (logging_error (Error_fetching_details product_name e)) (\<lambda>_. io_return None))"

definition fetch_product_details ::
  "world \<Rightarrow> string \<Rightarrow> ProductBase option \<Rightarrow> ProductDetails option io" where
  "fetch_product_details w page_url product =
     io_bind (page_goto w page_url) (\<lambda>_.
     io_bind (mouse_wheel w page_url 0 3000) (\<lambda>_.
     try_except (fetch_product_details_try w page_url product)
       (fetch_product_details_except product)))"

section \<open>Listing extraction\<close>

text \<open>
  A list comprehension whose element expression may raise: the first exception ends it.
\<close>

fun map_raising :: "('a \<Rightarrow> py_error + 'b) \<Rightarrow> 'a list \<Rightarrow> py_error + 'b list" where
  "map_raising f [] = Inr []"
| "map_raising f (x # xs) =
     (case f x of
        Inl e \<Rightarrow> Inl e
      | Inr y \<Rightarrow> (case map_raising f xs of Inl e \<Rightarrow> Inl e | Inr ys \<Rightarrow> Inr (y # ys)))"

text \<open>
  \<open>get_product_names(context, url)\<close>, lines 73 to 94: \<open>response.get("products", [])\<close>, the slice
  \<open>products[:5]\<close>, one \<open>ProductBase(**product)\<close> for each. The handler logs and returns
  \<open>None\<close>.
\<close>

definition response_products :: "(string \<times> py_dict list) list \<Rightarrow> py_dict list" where
  "response_products response = (case map_of response ''products'' of None \<Rightarrow> [] | Some ps \<Rightarrow> ps)"

definition get_product_names_try :: "world \<Rightarrow> string \<Rightarrow> ProductBase list option io" where
  "get_product_names_try w page_url =
     io_bind (query_list w page_url) (\<lambda>response.
     let products = response_products response in
     io_bind (io_lift (map_raising ProductBase_kwargs (take 5 products)))
       (\<lambda>bases. io_return (Some bases)))"

definition get_product_names :: "world \<Rightarrow> string \<Rightarrow> ProductBase list option io" where
  "get_product_names w page_url =
     io_bind (page_goto w page_url) (\<lambda>_.
     io_bind (mouse_wheel w page_url 0 4000) (\<lambda>_.
     try_except (get_product_names_try w page_url)
       (\<lambda>e. io_bind (logging_error (Error_fetching_products e)) (\<lambda>_. io_return None))))"

section \<open>Fan-out and de-duplication\<close>

text \<open>The inner coroutine \<open>fetch_product\<close> of \<open>get_names_and_fetch\<close>.\<close>

definition fetch_product :: "world \<Rightarrow> ProductBase \<Rightarrow> ProductDetails option io" where
  "fetch_product w product =
     try_except (fetch_product_details w (link product) (Some product))
       (\<lambda>e. io_bind (logging_error (Error_processing_product e)) (\<lambda>_. io_return None))"

text \<open>
  \<open>asyncio.gather(*tasks)\<close>: the results in the order of the tasks, or the first
  exception. Each task works on a page of its own and the world answers by page
  address, so the results do not depend on how the tasks interleave; the trace lists
  their events task by task, which is one of the possible interleavings.
\<close>

fun gather :: "'a io list \<Rightarrow> 'a list io" where
  "gather [] = io_return []"
| "gather (t # ts) = io_bind t (\<lambda>x. io_bind (gather ts) (\<lambda>xs. io_return (x # xs)))"

text \<open>
  \<open>get_names_and_fetch(url, existing_product_names)\<close>, lines 96 to 116. Iterating over
  the \<open>None\<close> that \<open>get_product_names\<close> returns after a failed query raises \<open>TypeError\<close>.
\<close>

definition get_names_and_fetch :: "world \<Rightarrow> string \<Rightarrow> string list \<Rightarrow> ProductDetails list io" where
  "get_names_and_fetch w page_url existing_names =
     io_bind (get_product_names w page_url) (\<lambda>trunc_products.
       case trunc_products of
         None \<Rightarrow> io_raise TypeError
       | Some ps \<Rightarrow>
           let new_products = filter (\<lambda>p. name p \<notin> set existing_names) ps;
               tasks = map (fetch_product w) new_products
           in io_bind (gather tasks) (\<lambda>fetched_products.
              io_return (List.map_filter (\<lambda>p. p) fetched_products)))"

section \<open>Search, with redirect detection\<close>

text \<open>
  \<open>urllib.parse.quote\<close> with its default \<open>safe = '/'\<close>: letters, digits and \<open>_.-~/\<close> are
  kept, every other byte becomes \<open>%XX\<close> in upper-case hexadecimal.
\<close>

definition always_safe :: "char \<Rightarrow> bool" where
  "always_safe c \<longleftrightarrow>
     c \<in> set ''ABCDEFGHIJKLMNOPQRSTUVWXYZabcdefghijklmnopqrstuvwxyz0123456789_.-~''"

definition hex_digit :: "nat \<Rightarrow> char" where
  "hex_digit n = ''0123456789ABCDEF'' ! (n mod 16)"

definition quote_byte :: "char \<Rightarrow> string" where
  "quote_byte c =
     (if always_safe c \<or> c = CHR ''/'' then [c]
      else [CHR ''%'', hex_digit (of_char c div 16), hex_digit (of_char c mod 16)])"

definition quote :: "string \<Rightarrow> string" where
  "quote s = concat (map quote_byte s)"

definition search_url_of :: "string \<Rightarrow> string" where
  "search_url_of keyword =
     ''https://demandvape.com/index.php?route=product/search&search='' @ quote keyword
       @ ''&category_id=1096''"

text \<open>
  \<open>handle_response\<close> (lines 129 to 133) updates the two \<open>nonlocal\<close> variables
  \<open>redirected\<close> and \<open>final_url\<close>, here a pair; \<open>search_and_scrape\<close> (lines 118 to 147)
  starts them at \<open>False\<close> and the search URL.
\<close>

definition handle_response :: "string \<Rightarrow> bool \<times> string \<Rightarrow> response \<Rightarrow> bool \<times> string" where
  "handle_response search_url st r =
     (if url r = search_url \<and> 300 \<le> status r \<and> status r < 400
      then (True, case map_of (headers r) ''location'' of None \<Rightarrow> search_url | Some l \<Rightarrow> l)
      else st)"

definition search_goto :: "world \<Rightarrow> string \<Rightarrow> response list io" where
  "search_goto w search_url = ([Goto search_url], search_goto_outcome w search_url)"

definition wait_for_load_state :: "world \<Rightarrow> string \<Rightarrow> unit io" where
  "wait_for_load_state w search_url = ([Wait_for_load_state], io_unit (load_state_outcome w search_url))"

definition search_and_scrape :: "world \<Rightarrow> string \<Rightarrow> string list \<Rightarrow> ProductDetails list io" where
  "search_and_scrape w keyword existing_names =
     (let search_url = search_url_of keyword in
      io_bind (search_goto w search_url) (\<lambda>responses.
      io_bind (wait_for_load_state w search_url) (\<lambda>_.
        case foldl (handle_response search_url) (False, search_url) responses of
          (redirected, final_url) \<Rightarrow>
            if \<not> redirected then get_names_and_fetch w search_url existing_names
            else
              io_bind (fetch_product_details w final_url None) (\<lambda>details.
              io_return (case details of Some d \<Rightarrow> [d] | None \<Rightarrow> [])))))"

section \<open>The two endpoints\<close>

text \<open>An exception that reaches an endpoint becomes \<open>HTTPException(status_code=500)\<close>.\<close>

datatype http_result = HTTP_200 "ProductDetails list" | HTTP_500 py_error

definition endpoint :: "ProductDetails list io \<Rightarrow> event list \<times> http_result" where
  "endpoint m = (case m of (evs, Inl e) \<Rightarrow> (evs, HTTP_500 e) | (evs, Inr result) \<Rightarrow> (evs, HTTP_200 result))"

definition scrape_endpoint :: "world \<Rightarrow> string \<Rightarrow> string list \<Rightarrow> event list \<times> http_result" where
  "scrape_endpoint w page_url existing_names = endpoint (get_names_and_fetch w page_url existing_names)"

definition search_and_scrape_endpoint :: "world \<Rightarrow> SearchRequest \<Rightarrow> event list \<times> http_result" where
  "search_and_scrape_endpoint w request =
     endpoint (search_and_scrape w (search_keyword request) (existing_product_names request))"

section \<open>Notions used to state the properties\<close>

text \<open>
  The value of the task \<open>fetch_product(product)\<close>, which never raises
  (\<open>fetch_product_returns\<close> below).
\<close>

definition fetched :: "world \<Rightarrow> ProductBase \<Rightarrow> ProductDetails option" where
  "fetched w p = (case snd (fetch_product w p) of Inl e \<Rightarrow> None | Inr r \<Rightarrow> r)"

text \<open>The responses that \<open>handle_response\<close> takes for a redirect of the search URL.\<close>

definition redirects :: "string \<Rightarrow> response list \<Rightarrow> response list" where
  "redirects search_url rs =
     filter (\<lambda>r. url r = search_url \<and> 300 \<le> status r \<and> status r < 400) rs"

text \<open>The vertical distance scrolled in a trace.\<close>

fun wheel_dy :: "event \<Rightarrow> int" where
  "wheel_dy (Wheel dx dy) = dy"
| "wheel_dy _ = 0"

definition total_scroll :: "event list \<Rightarrow> int" where
  "total_scroll evs = sum_list (map wheel_dy evs)"

text \<open>Whether a listed product, as the query layer returned it, has a name outside a list.\<close>

definition unknown_name :: "string list \<Rightarrow> py_dict \<Rightarrow> bool" where
  "unknown_name existing_names d =
     (case dict_get d ''name'' of None \<Rightarrow> False | Some n \<Rightarrow> n \<notin> set existing_names)"

section \<open>An example site\<close>

text \<open>
  A listing of three products at \<open>https://shop/list\<close>; the detail query fails on the
  page of product \<open>B\<close>; \<open>https://shop/offline\<close> cannot be reached and
  \<open>https://shop/stuck\<close> cannot be scrolled. Searching \<open>pulse x\<close> redirects to the page
  of product \<open>A\<close>, searching \<open>bare\<close> answers 301 with no \<open>location\<close> header, and any
  other search answers 200; searching \<open>vape\<close> shows the same listing of three.
\<close>

definition pA :: py_dict where
  "pA = [(''name'', Some ''A''), (''link'', Some ''https://shop/a''), (''img'', Some ''a.png'')]"

definition pB :: py_dict where
  "pB = [(''name'', Some ''B''), (''link'', Some ''https://shop/b''), (''img'', Some ''b.png'')]"

definition pC :: py_dict where
  "pC = [(''name'', Some ''C''), (''link'', Some ''https://shop/c''), (''img'', Some ''c.png'')]"

definition shop :: world where
  "shop = \<lparr>
     goto_outcome = (\<lambda>u. if u = ''https://shop/offline'' then Some (External ''net::ERR'') else None),
     wheel_outcome = (\<lambda>u dx dy. if u = ''https://shop/stuck'' then Some (External ''closed'') else None),
     list_query_outcome =
       (\<lambda>u. if u = ''https://shop/list''
              \<or> u = ''https://demandvape.com/index.php?route=product/search&search=vape&category_id=1096''
            then Inr [(''products'', [pA, pB, pC])]
            else Inl (External ''no list'')),
     detail_query_outcome =
       (\<lambda>u. if u = ''https://shop/b'' then Inl (External ''query failed'')
            else Inr [(''Battery'', Some ''650mAh''), (''Display'', None)]),
     info_query_outcome =
       (\<lambda>u. Inr [(''product_name'', Some ''A''), (''product_link'', Some ''https://shop/a''),
                 (''product_img'', Some ''a.png'')]),
     search_goto_outcome =
       (\<lambda>u. if u = ''https://demandvape.com/index.php?route=product/search&search=pulse%20x&category_id=1096''
            then Inr [\<lparr>url = u, status = 302, headers = [(''location'', ''https://shop/a'')]\<rparr>,
                      \<lparr>url = ''https://shop/a'', status = 200, headers = []\<rparr>]
            else if u = ''https://demandvape.com/index.php?route=product/search&search=bare&category_id=1096''
            then Inr [\<lparr>url = u, status = 301, headers = []\<rparr>]
            else Inr [\<lparr>url = u, status = 200, headers = []\<rparr>]),
     load_state_outcome = (\<lambda>u. None)\<rparr>"

definition dA :: ProductDetails where
  "dA = \<lparr>name = ''A'', link = ''https://shop/a'', img = ''a.png'', Battery = Some ''650mAh'',
          Max_Puff = None, Display = None, Nicotine = None, E_liquid_Capacity = None\<rparr>"

definition dC :: ProductDetails where
  "dC = \<lparr>name = ''C'', link = ''https://shop/c'', img = ''c.png'', Battery = Some ''650mAh'',
          Max_Puff = None, Display = None, Nicotine = None, E_liquid_Capacity = None\<rparr>"

section \<open>Sequencing and exceptions\<close>

lemma snd_io_bind: "snd (io_bind m f) = (case snd m of Inl e \<Rightarrow> Inl e | Inr x \<Rightarrow> snd (f x))"
  by (simp add: io_bind_def split: prod.splits sum.splits)

lemma fst_io_bind:
  "fst (io_bind m f) = (case snd m of Inl e \<Rightarrow> fst m | Inr x \<Rightarrow> fst m @ fst (f x))"
  by (simp add: io_bind_def split: prod.splits sum.splits)

lemma snd_try_except:
  "snd (try_except m h) = (case snd m of Inl e \<Rightarrow> snd (h e) | Inr x \<Rightarrow> Inr x)"
  by (simp add: try_except_def split: prod.splits sum.splits)

lemma fst_try_except:
  "fst (try_except m h) = (case snd m of Inl e \<Rightarrow> fst m @ fst (h e) | Inr x \<Rightarrow> fst m)"
  by (simp add: try_except_def split: prod.splits sum.splits)

lemma io_unit_simps:
  "io_unit None = Inr ()"
  "io_unit (Some e) = Inl e"
  "io_unit r = Inl e \<longleftrightarrow> r = Some e"
  "io_unit r = Inr x \<longleftrightarrow> r = None"
  by (simp_all add: io_unit_def split: option.splits)

lemmas io_simps = snd_io_bind fst_io_bind snd_try_except fst_try_except io_unit_simps
  io_return_def io_raise_def io_lift_def page_goto_def mouse_wheel_def query_list_def
  query_detail_def query_info_def logging_error_def search_goto_def wait_for_load_state_def

section \<open>The pydantic constructors\<close>

lemma ProductBase_kwargs_dict: "ProductBase_kwargs (ProductBase_dict p) = Inr p"
  by (simp add: ProductBase_kwargs_def ProductBase_dict_def dict_get_def)

lemma ProductBase_kwargs_name:
  "ProductBase_kwargs d = Inr p \<Longrightarrow> dict_get d ''name'' = Some (name p)"
  by (auto simp: ProductBase_kwargs_def split: option.splits)

lemma ProductDetails_kwargs_base:
  "ProductDetails_kwargs (ProductBase_dict p) b = Inr d \<Longrightarrow> ProductBase.truncate d = p"
  by (auto simp: ProductDetails_kwargs_def ProductBase_kwargs_def ProductBase_dict_def
      dict_get_def ProductBase.truncate_def split: if_splits)

lemma map_raising_all2:
  "map_raising f xs = Inr ys \<Longrightarrow> list_all2 (\<lambda>x y. f x = Inr y) xs ys"
  by (induction xs arbitrary: ys) (auto split: sum.splits)

section \<open>What detail extraction returns\<close>

lemma except_snd: "snd (fetch_product_details_except product e) = Inr None"
  by (simp add: fetch_product_details_except_def io_simps)

lemma except_fst:
  "fst (fetch_product_details_except product e) =
     [Logging_error
        (Error_fetching_details (case product of Some p \<Rightarrow> name p | None \<Rightarrow> ''Unknown'') e)]"
  by (simp add: fetch_product_details_except_def io_simps)

lemma try_given_base:
  "snd (fetch_product_details_try w u (Some p)) = Inr r \<Longrightarrow>
     \<exists>d. r = Some d \<and> ProductBase.truncate d = p"
  by (auto simp: fetch_product_details_try_def io_simps ProductBase_kwargs_dict
      split: sum.splits dest: ProductDetails_kwargs_base)

lemma try_detail_fails:
  "detail_query_outcome w u = Inl e \<Longrightarrow> snd (fetch_product_details_try w u product) = Inl e"
  by (simp add: fetch_product_details_try_def io_simps)

lemma fetch_product_details_raises:
  "snd (fetch_product_details w u product) = Inl e \<longleftrightarrow>
     goto_outcome w u = Some e \<or> (goto_outcome w u = None \<and> wheel_outcome w u 0 3000 = Some e)"
  by (auto simp: fetch_product_details_def io_simps except_snd split: sum.splits option.splits)

lemma fetch_product_details_given_base:
  "snd (fetch_product_details w u (Some p)) = Inr (Some d) \<Longrightarrow> ProductBase.truncate d = p"
  by (auto simp: fetch_product_details_def io_simps except_snd
      split: sum.splits option.splits dest: try_given_base)

lemma fetch_product_details_detail_fails:
  "detail_query_outcome w u = Inl e \<Longrightarrow> snd (fetch_product_details w u product) \<noteq> Inr (Some d)"
  by (auto simp: fetch_product_details_def io_simps except_snd try_detail_fails
      split: sum.splits option.splits)

section \<open>What the fan-out returns\<close>

lemma fetch_product_returns: "snd (fetch_product w p) = Inr (fetched w p)"
  by (simp add: fetch_product_def fetched_def io_simps split: sum.splits)

lemma fetched_base: "fetched w p = Some d \<Longrightarrow> ProductBase.truncate d = p"
  by (auto simp: fetch_product_def fetched_def io_simps
      split: sum.splits dest: fetch_product_details_given_base)

lemma fetched_detail_fails: "detail_query_outcome w (link p) = Inl e \<Longrightarrow> fetched w p = None"
  using fetch_product_details_detail_fails[of w "link p" e "Some p"]
  by (cases "fetched w p") (auto simp: fetch_product_def fetched_def io_simps split: sum.splits)

lemma gather_map: "(\<And>x. snd (f x) = Inr (g x)) \<Longrightarrow> snd (gather (map f xs)) = Inr (map g xs)"
  by (induction xs) (simp_all add: io_simps)

lemma get_names_and_fetch_result:
  "snd (get_names_and_fetch w u ex) =
     (case snd (get_product_names w u) of
        Inl e \<Rightarrow> Inl e
      | Inr None \<Rightarrow> Inl TypeError
      | Inr (Some ps) \<Rightarrow>
          Inr (List.map_filter (fetched w) (filter (\<lambda>p. name p \<notin> set ex) ps)))"
  by (simp add: get_names_and_fetch_def io_simps Let_def gather_map[OF fetch_product_returns]
      map_filter_def filter_map comp_def split: sum.splits option.splits)

lemma get_product_names_listing:
  "snd (get_product_names w u) = Inr (Some ps) \<Longrightarrow>
     \<exists>response. list_query_outcome w u = Inr response \<and>
       map_raising ProductBase_kwargs (take 5 (response_products response)) = Inr ps"
  by (auto simp: get_product_names_def get_product_names_try_def io_simps Let_def
      split: sum.splits option.splits)

lemma snd_endpoint:
  "snd (endpoint m) = (case snd m of Inl e \<Rightarrow> HTTP_500 e | Inr result \<Rightarrow> HTTP_200 result)"
  by (simp add: endpoint_def split: prod.splits sum.splits)

lemma fst_endpoint: "fst (endpoint m) = fst m"
  by (simp add: endpoint_def split: prod.splits sum.splits)

section \<open>Counting in lists\<close>

lemma length_map_filter_le: "length (List.map_filter f xs) \<le> length xs"
  by (induction xs) (auto simp: map_filter_simps split: option.splits)

lemma filter_all2_length:
  "list_all2 R xs ys \<Longrightarrow> (\<And>x y. R x y \<Longrightarrow> Q x = P y) \<Longrightarrow>
     length (filter P ys) = length (filter Q xs)"
  by (induction rule: list_all2_induct) auto

lemma length_filter_take: "length (filter Q (take n xs)) \<le> length (filter Q xs)"
proof -
  have "length (filter Q xs) = length (filter Q (take n xs)) + length (filter Q (drop n xs))"
    by (metis append_take_drop_id filter_append length_append)
  then show ?thesis by simp
qed

section \<open>The example site, evaluated\<close>

lemma get_product_names_shop:
  "snd (get_product_names shop ''https://shop/list'') =
     Inr (Some [\<lparr>name = ''A'', link = ''https://shop/a'', img = ''a.png''\<rparr>,
                \<lparr>name = ''B'', link = ''https://shop/b'', img = ''b.png''\<rparr>,
                \<lparr>name = ''C'', link = ''https://shop/c'', img = ''c.png''\<rparr>])"
  by (simp add: get_product_names_def get_product_names_try_def io_simps shop_def
      response_products_def pA_def pB_def pC_def ProductBase_kwargs_def dict_get_def)

lemma fetched_shop:
  "fetched shop \<lparr>name = ''A'', link = ''https://shop/a'', img = ''a.png''\<rparr> = Some dA"
  "fetched shop \<lparr>name = ''B'', link = ''https://shop/b'', img = ''b.png''\<rparr> = None"
  "fetched shop \<lparr>name = ''C'', link = ''https://shop/c'', img = ''c.png''\<rparr> = Some dC"
  by (simp_all add: fetched_def fetch_product_def fetch_product_details_def
      fetch_product_details_try_def fetch_product_details_except_def io_simps shop_def
      ProductBase_kwargs_def ProductDetails_kwargs_def ProductBase_dict_def dict_get_def
      dA_def dC_def)

lemma get_names_and_fetch_shop:
  "snd (get_names_and_fetch shop ''https://shop/list'' [''C'']) = Inr [dA]"
  "snd (get_names_and_fetch shop ''https://shop/list'' []) = Inr [dA, dC]"
  by (simp_all add: get_names_and_fetch_result get_product_names_shop map_filter_def fetched_shop)

section \<open>A failed listing query\<close>

lemma listing_query_fails:
  "list_query_outcome w u = Inl e \<Longrightarrow> snd (get_product_names_try w u) = Inl e"
  by (simp add: get_product_names_try_def io_simps)

text \<open>
  Claim C1 says that a failed listing query degrades to an empty result list:
  \<open>get_names_and_fetch\<close> returns normally and no exception reaches the endpoint. The
  code does otherwise. When the \<open>try\<close> of \<open>get_product_names\<close> raises, as it does when
  the listing query raises, the handler logs the error and returns \<open>None\<close>;
  \<open>get_names_and_fetch\<close> then iterates over that \<open>None\<close>, which raises \<open>TypeError\<close>, and
  the \<open>/scrape\<close> endpoint answers HTTP 500.
\<close>

theorem C1_listing_failure_raises_TypeError:
  assumes "goto_outcome w u = None" and "wheel_outcome w u 0 4000 = None"
    and "snd (get_product_names_try w u) = Inl e"
  shows "snd (get_product_names w u) = Inr None
       \<and> last (fst (get_product_names w u)) = Logging_error (Error_fetching_products e)
       \<and> snd (get_names_and_fetch w u ex) = Inl TypeError
       \<and> snd (scrape_endpoint w u ex) = HTTP_500 TypeError"
proof -
  have names: "snd (get_product_names w u) = Inr None"
    using assms by (simp add: get_product_names_def io_simps)
  have logged: "last (fst (get_product_names w u)) = Logging_error (Error_fetching_products e)"
    using assms by (simp add: get_product_names_def io_simps)
  have raised: "snd (get_names_and_fetch w u ex) = Inl TypeError"
    by (simp add: get_names_and_fetch_result names)
  have "snd (scrape_endpoint w u ex) = HTTP_500 TypeError"
    using raised by (simp add: scrape_endpoint_def snd_endpoint)
  with names logged raised show ?thesis by simp
qed

theorem C1_listing_failure_witness:
  "goto_outcome shop ''https://shop/none'' = None
   \<and> wheel_outcome shop ''https://shop/none'' 0 4000 = None
   \<and> list_query_outcome shop ''https://shop/none'' = Inl (External ''no list'')
   \<and> snd (get_product_names_try shop ''https://shop/none'') = Inl (External ''no list'')
   \<and> snd (get_product_names shop ''https://shop/none'') = Inr None
   \<and> snd (get_names_and_fetch shop ''https://shop/none'' []) = Inl TypeError
   \<and> snd (scrape_endpoint shop ''https://shop/none'' []) = HTTP_500 TypeError"
proof -
  have a: "goto_outcome shop ''https://shop/none'' = None" by (simp add: shop_def)
  have b: "wheel_outcome shop ''https://shop/none'' 0 4000 = None" by (simp add: shop_def)
  have c: "list_query_outcome shop ''https://shop/none'' = Inl (External ''no list'')"
    by (simp add: shop_def)
  note d = listing_query_fails [OF c]
  show ?thesis
    using C1_listing_failure_raises_TypeError [OF a b d, of "[]"] a b c d by simp
qed

section \<open>How many products are returned\<close>

text \<open>
  Claim C3: when the listing query succeeds, the list returned by \<open>get_names_and_fetch\<close>
  has at most five elements, and at most as many as the products found by the listing
  query whose names are not in \<open>existing_product_names\<close>.
\<close>

theorem C3_count_bounds:
  assumes "list_query_outcome w u = Inr response"
    and "snd (get_names_and_fetch w u ex) = Inr result"
  shows "length result \<le> 5
       \<and> length result \<le> length (filter (unknown_name ex) (response_products response))"
proof -
  from assms(2) obtain ps where ps: "snd (get_product_names w u) = Inr (Some ps)"
    and result: "result = List.map_filter (fetched w) (filter (\<lambda>p. name p \<notin> set ex) ps)"
    by (auto simp: get_names_and_fetch_result split: sum.splits option.splits)
  from get_product_names_listing [OF ps] assms(1)
  have raw: "map_raising ProductBase_kwargs (take 5 (response_products response)) = Inr ps"
    by auto
  then have all2: "list_all2 (\<lambda>d p. ProductBase_kwargs d = Inr p)
      (take 5 (response_products response)) ps"
    by (rule map_raising_all2)
  have len: "length result \<le> length (filter (\<lambda>p. name p \<notin> set ex) ps)"
    unfolding result by (rule length_map_filter_le)
  have "length ps \<le> 5"
    using list_all2_lengthD [OF all2] by simp
  then have five: "length result \<le> 5"
    using len length_filter_le [of "\<lambda>p. name p \<notin> set ex" ps] by linarith
  have "length (filter (\<lambda>p. name p \<notin> set ex) ps)
      = length (filter (unknown_name ex) (take 5 (response_products response)))"
    using all2
    by (rule filter_all2_length) (simp add: unknown_name_def ProductBase_kwargs_name)
  also have "\<dots> \<le> length (filter (unknown_name ex) (response_products response))"
    by (rule length_filter_take)
  finally show ?thesis using len five by simp
qed

theorem C3_count_bounds_witness:
  "list_query_outcome shop ''https://shop/list'' = Inr [(''products'', [pA, pB, pC])]
   \<and> snd (get_names_and_fetch shop ''https://shop/list'' [''C'']) = Inr [dA]
   \<and> length [dA] \<le> 5
   \<and> length [dA]
       \<le> length (filter (unknown_name [''C'']) (response_products [(''products'', [pA, pB, pC])]))"
proof -
  have a: "list_query_outcome shop ''https://shop/list'' = Inr [(''products'', [pA, pB, pC])]"
    by (simp add: shop_def)
  have b: "snd (get_names_and_fetch shop ''https://shop/list'' [''C'']) = Inr [dA]"
    by (rule get_names_and_fetch_shop)
  show ?thesis using C3_count_bounds [OF a b] a b by simp
qed

lemma set_map_filter: "set (List.map_filter f xs) = {y. \<exists>x\<in>set xs. f x = Some y}"
  by (induction xs) (auto simp: map_filter_simps split: option.splits)

section \<open>A failed detail query\<close>

text \<open>
  Claim C4: if the detail query fails for a product of the fan-out, that product is
  absent from the list that \<open>get_names_and_fetch\<close> returns, and the failure does not
  reach the caller: the call returns a list. The task of that product yields \<open>None\<close>,
  and nothing in the result comes from its page.
\<close>

theorem C4_failed_detail_query_omitted:
  assumes "snd (get_product_names w u) = Inr (Some ps)" and "p \<in> set ps"
    and "name p \<notin> set ex" and "detail_query_outcome w (link p) = Inl e"
  shows "\<exists>result. snd (get_names_and_fetch w u ex) = Inr result
       \<and> (\<forall>d\<in>set result. ProductBase.truncate d \<noteq> p \<and> link d \<noteq> link p)
       \<and> snd (fetch_product w p) = Inr None"
proof -
  define result where "result = List.map_filter (fetched w) (filter (\<lambda>p. name p \<notin> set ex) ps)"
  have returned: "snd (get_names_and_fetch w u ex) = Inr result"
    by (simp add: get_names_and_fetch_result assms(1) result_def)
  have absent: "ProductBase.truncate d \<noteq> p \<and> link d \<noteq> link p" if "d \<in> set result" for d
  proof -
    from that obtain q where q: "fetched w q = Some d"
      by (auto simp: result_def set_map_filter)
    then have base: "ProductBase.truncate d = q" by (rule fetched_base)
    then have same: "link q = link d" by (auto simp: ProductBase.truncate_def)
    have "link d \<noteq> link p"
    proof
      assume "link d = link p"
      then have "detail_query_outcome w (link q) = Inl e" using same assms(4) by simp
      then have "fetched w q = None" by (rule fetched_detail_fails)
      with q show False by simp
    qed
    then show ?thesis using base same by auto
  qed
  have "snd (fetch_product w p) = Inr None"
    using fetched_detail_fails [OF assms(4)] by (simp add: fetch_product_returns)
  with returned absent show ?thesis by blast
qed

theorem C4_failed_detail_query_witness:
  "snd (get_product_names shop ''https://shop/list'') =
     Inr (Some [\<lparr>name = ''A'', link = ''https://shop/a'', img = ''a.png''\<rparr>,
                \<lparr>name = ''B'', link = ''https://shop/b'', img = ''b.png''\<rparr>,
                \<lparr>name = ''C'', link = ''https://shop/c'', img = ''c.png''\<rparr>])
   \<and> detail_query_outcome shop ''https://shop/b'' = Inl (External ''query failed'')
   \<and> snd (get_names_and_fetch shop ''https://shop/list'' []) = Inr [dA, dC]
   \<and> link dA \<noteq> ''https://shop/b'' \<and> link dC \<noteq> ''https://shop/b''
   \<and> snd (fetch_product shop \<lparr>name = ''B'', link = ''https://shop/b'', img = ''b.png''\<rparr>) = Inr None"
proof -
  have b: "detail_query_outcome shop
      (link \<lparr>name = ''B'', link = ''https://shop/b'', img = ''b.png''\<rparr>) = Inl (External ''query failed'')"
    by (simp add: shop_def)
  show ?thesis
    using C4_failed_detail_query_omitted [OF get_product_names_shop _ _ b, of "[]"]
      get_product_names_shop get_names_and_fetch_shop(2) b
    by (simp add: dA_def dC_def)
qed

section \<open>The order of the returned products\<close>

text \<open>
  Claim C9: a run of \<open>get_names_and_fetch\<close> that returns keeps the order of the listing.
  The identities of the returned products are the listed products, in the order the
  listing query gave them, restricted to those whose name is not in
  \<open>existing_product_names\<close> and whose detail fetch yielded a record.
\<close>

theorem C9_listing_order_preserved:
  assumes "list_query_outcome w u = Inr response"
    and "snd (get_names_and_fetch w u ex) = Inr result"
  shows "\<exists>ps. list_all2 (\<lambda>d p. ProductBase_kwargs d = Inr p) (take 5 (response_products response)) ps
       \<and> map ProductBase.truncate result
           = filter (\<lambda>p. name p \<notin> set ex \<and> snd (fetch_product w p) \<noteq> Inr None) ps"
proof -
  from assms(2) obtain ps where ps: "snd (get_product_names w u) = Inr (Some ps)"
    and result: "result = List.map_filter (fetched w) (filter (\<lambda>p. name p \<notin> set ex) ps)"
    by (auto simp: get_names_and_fetch_result split: sum.splits option.splits)
  from get_product_names_listing [OF ps] assms(1)
  have "map_raising ProductBase_kwargs (take 5 (response_products response)) = Inr ps"
    by auto
  then have all2: "list_all2 (\<lambda>d p. ProductBase_kwargs d = Inr p)
      (take 5 (response_products response)) ps"
    by (rule map_raising_all2)
  have order: "map ProductBase.truncate (List.map_filter (fetched w) xs)
      = filter (\<lambda>p. fetched w p \<noteq> None) xs" for xs
    by (induction xs) (auto simp: map_filter_simps fetched_base split: option.splits)
  have "map ProductBase.truncate result
      = filter (\<lambda>p. name p \<notin> set ex \<and> snd (fetch_product w p) \<noteq> Inr None) ps"
    unfolding result order by (simp add: fetch_product_returns conj_commute)
  with all2 show ?thesis by blast
qed

theorem C9_listing_order_witness:
  "list_query_outcome shop ''https://shop/list'' = Inr [(''products'', [pA, pB, pC])]
   \<and> snd (get_names_and_fetch shop ''https://shop/list'' []) = Inr [dA, dC]
   \<and> (\<exists>ps. list_all2 (\<lambda>d p. ProductBase_kwargs d = Inr p) [pA, pB, pC] ps
       \<and> map ProductBase.truncate [dA, dC]
           = filter (\<lambda>p. snd (fetch_product shop p) \<noteq> Inr None) ps)"
proof -
  have a: "list_query_outcome shop ''https://shop/list'' = Inr [(''products'', [pA, pB, pC])]"
    by (simp add: shop_def)
  show ?thesis
    using C9_listing_order_preserved [OF a get_names_and_fetch_shop(2)] a get_names_and_fetch_shop(2)
    by (simp add: response_products_def)
qed

section \<open>The example searches, evaluated\<close>

lemma search_url_of_examples:
  "search_url_of ''pulse x'' = ''https://demandvape.com/index.php?route=product/search&search=pulse%20x&category_id=1096''"
  "search_url_of ''bare'' = ''https://demandvape.com/index.php?route=product/search&search=bare&category_id=1096''"
  "search_url_of ''vape'' = ''https://demandvape.com/index.php?route=product/search&search=vape&category_id=1096''"
  by code_simp+

lemma fetch_product_details_shop:
  "fetch_product_details shop ''https://shop/a'' None =
     ([Goto ''https://shop/a'', Wheel 0 3000, Query_data ''https://shop/a'' PRODUCT_DETAIL_QUERY,
       Query_data ''https://shop/a'' PRODUCT_INFO_QUERY], Inr (Some dA))"
  by (simp add: fetch_product_details_def fetch_product_details_try_def io_bind_def try_except_def
      io_simps shop_def ProductBase_kwargs_def ProductDetails_kwargs_def ProductBase_dict_def
      dict_get_def dA_def)

lemma fetch_product_details_shop_bare:
  "snd (fetch_product_details shop (search_url_of ''bare'') None) = Inr (Some dA)"
  by (simp add: fetch_product_details_def fetch_product_details_try_def
      io_simps shop_def ProductBase_kwargs_def ProductDetails_kwargs_def ProductBase_dict_def
      dict_get_def dA_def search_url_of_examples)

lemma get_product_names_shop_search:
  "snd (get_product_names shop (search_url_of ''vape'')) =
     Inr (Some [\<lparr>name = ''A'', link = ''https://shop/a'', img = ''a.png''\<rparr>,
                \<lparr>name = ''B'', link = ''https://shop/b'', img = ''b.png''\<rparr>,
                \<lparr>name = ''C'', link = ''https://shop/c'', img = ''c.png''\<rparr>])"
  by (simp add: get_product_names_def get_product_names_try_def io_simps shop_def
      response_products_def pA_def pB_def pC_def ProductBase_kwargs_def dict_get_def
      search_url_of_examples)

lemma get_names_and_fetch_shop_search:
  "snd (get_names_and_fetch shop (search_url_of ''vape'') [''C'']) = Inr [dA]"
  by (simp add: get_names_and_fetch_result get_product_names_shop_search map_filter_def fetched_shop)

lemma search_goto_shop:
  "search_goto_outcome shop (search_url_of ''pulse x'') =
     Inr [\<lparr>url = search_url_of ''pulse x'', status = 302, headers = [(''location'', ''https://shop/a'')]\<rparr>,
          \<lparr>url = ''https://shop/a'', status = 200, headers = []\<rparr>]"
  "search_goto_outcome shop (search_url_of ''bare'') =
     Inr [\<lparr>url = search_url_of ''bare'', status = 301, headers = []\<rparr>]"
  "search_goto_outcome shop (search_url_of ''vape'') =
     Inr [\<lparr>url = search_url_of ''vape'', status = 200, headers = []\<rparr>]"
  by (simp_all add: shop_def search_url_of_examples)

lemma load_state_shop: "load_state_outcome shop u = None"
  by (simp add: shop_def)

lemma redirects_shop:
  "redirects (search_url_of ''pulse x'')
     [\<lparr>url = search_url_of ''pulse x'', status = 302, headers = [(''location'', ''https://shop/a'')]\<rparr>,
      \<lparr>url = ''https://shop/a'', status = 200, headers = []\<rparr>]
   = [\<lparr>url = search_url_of ''pulse x'', status = 302, headers = [(''location'', ''https://shop/a'')]\<rparr>]"
  "redirects (search_url_of ''bare'') [\<lparr>url = search_url_of ''bare'', status = 301, headers = []\<rparr>]
   = [\<lparr>url = search_url_of ''bare'', status = 301, headers = []\<rparr>]"
  "redirects (search_url_of ''vape'') [\<lparr>url = search_url_of ''vape'', status = 200, headers = []\<rparr>] = []"
  by (simp_all add: redirects_def search_url_of_examples)

section \<open>What a search returns\<close>

text \<open>
  Folding \<open>handle_response\<close> over the responses: \<open>redirected\<close> is set exactly when
  some response is a redirect of the search URL, and \<open>final_url\<close> is then taken from
  the last such response.
\<close>

lemma handle_response_fold:
  "foldl (handle_response su) (False, su) rs =
     (if redirects su rs = [] then (False, su)
      else (True, case map_of (headers (last (redirects su rs))) ''location'' of
                    None \<Rightarrow> su | Some l \<Rightarrow> l))"
  by (induction rs rule: rev_induct) (auto simp: handle_response_def redirects_def)

lemma search_and_scrape_result:
  assumes "search_goto_outcome w (search_url_of kw) = Inr rs"
    and "load_state_outcome w (search_url_of kw) = None"
  shows "search_and_scrape w kw ex =
     (if redirects (search_url_of kw) rs = []
      then io_bind ([Goto (search_url_of kw), Wait_for_load_state], Inr ())
             (\<lambda>_. get_names_and_fetch w (search_url_of kw) ex)
      else io_bind ([Goto (search_url_of kw), Wait_for_load_state], Inr ())
             (\<lambda>_. io_bind
                (fetch_product_details w
                   (case map_of (headers (last (redirects (search_url_of kw) rs))) ''location'' of
                      None \<Rightarrow> search_url_of kw | Some l \<Rightarrow> l) None)
                (\<lambda>details. io_return (case details of Some d \<Rightarrow> [d] | None \<Rightarrow> []))))"
  using assms
  by (simp add: search_and_scrape_def Let_def handle_response_fold io_bind_def search_goto_def
      wait_for_load_state_def io_unit_simps split: prod.splits sum.splits)

section \<open>Names already known\<close>

text \<open>
  The listing flow never returns a product whose name is in \<open>existing_product_names\<close>.
\<close>

lemma get_names_and_fetch_skips_known:
  assumes "snd (get_names_and_fetch w u ex) = Inr result" and "d \<in> set result"
  shows "name d \<notin> set ex"
proof -
  from assms(1) obtain ps where
    result: "result = List.map_filter (fetched w) (filter (\<lambda>p. name p \<notin> set ex) ps)"
    by (auto simp: get_names_and_fetch_result split: sum.splits option.splits)
  with assms(2) obtain q where q: "name q \<notin> set ex" "fetched w q = Some d"
    by (auto simp: set_map_filter)
  from fetched_base [OF q(2)] have "name d = name q"
    by (auto simp: ProductBase.truncate_def)
  with q(1) show ?thesis by simp
qed

text \<open>
  Claim C2 says that no product returned by either endpoint, the redirect branch of
  \<open>/search-and-scrape\<close> included, has a name in \<open>existing_product_names\<close>. The redirect
  branch never consults that list: a search that redirects to the page of product \<open>A\<close>
  returns \<open>A\<close> although the caller listed \<open>A\<close> as known.
\<close>

theorem C2_redirect_returns_known_name:
  "snd (search_and_scrape_endpoint shop
          \<lparr>search_keyword = ''pulse x'', existing_product_names = [''A'']\<rparr>) = HTTP_200 [dA]
   \<and> name dA \<in> set (existing_product_names
          \<lparr>search_keyword = ''pulse x'', existing_product_names = [''A'']\<rparr>)"
proof -
  have "snd (search_and_scrape shop ''pulse x'' [''A'']) = Inr [dA]"
    by (simp add: search_and_scrape_result [OF search_goto_shop(1) load_state_shop]
        redirects_shop io_simps fetch_product_details_shop)
  then show ?thesis
    by (simp add: search_and_scrape_endpoint_def snd_endpoint dA_def)
qed

section \<open>Failures of detail extraction\<close>

text \<open>
  Claim C5, as amended: in every invocation of \<open>fetch_product_details\<close> whose page
  navigation and scrolling succeed, the call returns rather than raises, and any
  failure inside the \<open>try\<close> (a query that raises, or records that cannot be built)
  ends in the line \<open>Error fetching details for product\<close> with the product's name, or
  \<open>Unknown\<close> when no base product was supplied, and in the result \<open>None\<close>. A failing
  detail query is such a failure, and so is a failing identity query when no base
  product was supplied.
\<close>

theorem C5_failures_inside_try_are_omissions:
  assumes "goto_outcome w u = None" and "wheel_outcome w u 0 3000 = None"
  shows "(\<exists>r. snd (fetch_product_details w u product) = Inr r)
       \<and> (\<forall>e. snd (fetch_product_details_try w u product) = Inl e \<longrightarrow>
             snd (fetch_product_details w u product) = Inr None
           \<and> last (fst (fetch_product_details w u product))
               = Logging_error (Error_fetching_details
                   (case product of Some p \<Rightarrow> name p | None \<Rightarrow> ''Unknown'') e))
       \<and> (\<forall>e. detail_query_outcome w u = Inl e \<longrightarrow>
             snd (fetch_product_details_try w u product) = Inl e)
       \<and> (\<forall>e r. product = None \<and> detail_query_outcome w u = Inr r \<and> info_query_outcome w u = Inl e \<longrightarrow>
             snd (fetch_product_details_try w u product) = Inl e)"
proof -
  have returns: "\<exists>r. snd (fetch_product_details w u product) = Inr r"
    using assms fetch_product_details_raises [of w u product]
    by (cases "snd (fetch_product_details w u product)") auto
  have omitted: "snd (fetch_product_details w u product) = Inr None
      \<and> last (fst (fetch_product_details w u product))
          = Logging_error (Error_fetching_details
              (case product of Some p \<Rightarrow> name p | None \<Rightarrow> ''Unknown'') e)"
    if "snd (fetch_product_details_try w u product) = Inl e" for e
    using assms that by (simp add: fetch_product_details_def io_simps except_snd except_fst)
  have info: "snd (fetch_product_details_try w u product) = Inl e"
    if "product = None" and "detail_query_outcome w u = Inr r" and "info_query_outcome w u = Inl e"
    for e r
    using that by (simp add: fetch_product_details_try_def io_simps)
  from returns omitted info show ?thesis
    by (auto simp: try_detail_fails)
qed

theorem C5_failures_inside_try_witness:
  "goto_outcome shop ''https://shop/b'' = None
   \<and> wheel_outcome shop ''https://shop/b'' 0 3000 = None
   \<and> detail_query_outcome shop ''https://shop/b'' = Inl (External ''query failed'')
   \<and> snd (fetch_product_details shop ''https://shop/b'' None) = Inr None
   \<and> last (fst (fetch_product_details shop ''https://shop/b'' None))
       = Logging_error (Error_fetching_details ''Unknown'' (External ''query failed''))"
proof -
  have a: "goto_outcome shop ''https://shop/b'' = None" by (simp add: shop_def)
  have b: "wheel_outcome shop ''https://shop/b'' 0 3000 = None" by (simp add: shop_def)
  have c: "detail_query_outcome shop ''https://shop/b'' = Inl (External ''query failed'')"
    by (simp add: shop_def)
  show ?thesis
    using C5_failures_inside_try_are_omissions [OF a b, of None] a b c by simp
qed

text \<open>
  As claim C5 is stated, failures of navigation and of scrolling are included. They
  are not caught: \<open>goto\<close> and \<open>mouse.wheel\<close> stand before the \<open>try\<close>, so the exception
  reaches the caller and nothing is logged.
\<close>

theorem C5_navigation_failure_counterexample:
  "fetch_product_details shop ''https://shop/offline'' None
     = ([Goto ''https://shop/offline''], Inl (External ''net::ERR''))
   \<and> fetch_product_details shop ''https://shop/stuck''
       (Some \<lparr>name = ''S'', link = ''https://shop/stuck'', img = ''s.png''\<rparr>)
     = ([Goto ''https://shop/stuck'', Wheel 0 3000], Inl (External ''closed''))"
  by (simp add: fetch_product_details_def io_bind_def page_goto_def mouse_wheel_def
      io_unit_def shop_def)

section \<open>Search with a redirect\<close>

text \<open>
  Claim C6, as amended: when navigating to the search URL yields a redirect (a response
  for that exact URL with a status from 300 to 399), the list \<open>search_and_scrape\<close>
  returns has at most one element, and an element it has was extracted from
  \<open>final_url\<close>: the \<open>location\<close> header of the last redirect response when that
  response carries one, and otherwise the search URL itself, which is the default of
  \<open>headers.get('location', search_url)\<close>. The call returns exactly when the navigation
  and scrolling of that extraction succeed.
\<close>

theorem C6_redirect_at_most_one:
  assumes "search_goto_outcome w (search_url_of kw) = Inr rs"
    and "load_state_outcome w (search_url_of kw) = None"
    and "redirects (search_url_of kw) rs \<noteq> []"
  shows "\<exists>target.
           target = (case map_of (headers (last (redirects (search_url_of kw) rs))) ''location'' of
                       None \<Rightarrow> search_url_of kw | Some l \<Rightarrow> l)
         \<and> snd (search_and_scrape w kw ex)
             = (case snd (fetch_product_details w target None) of
                  Inl e \<Rightarrow> Inl e
                | Inr None \<Rightarrow> Inr []
                | Inr (Some d) \<Rightarrow> Inr [d])
         \<and> (\<forall>result. snd (search_and_scrape w kw ex) = Inr result \<longrightarrow>
               length result \<le> 1
               \<and> (\<forall>d\<in>set result. snd (fetch_product_details w target None) = Inr (Some d)))"
  by (auto simp: search_and_scrape_result [OF assms(1,2)] assms(3) io_simps
      split: sum.splits option.splits)

theorem C6_redirect_witness:
  "search_goto_outcome shop (search_url_of ''pulse x'') =
     Inr [\<lparr>url = search_url_of ''pulse x'', status = 302, headers = [(''location'', ''https://shop/a'')]\<rparr>,
          \<lparr>url = ''https://shop/a'', status = 200, headers = []\<rparr>]
   \<and> snd (search_and_scrape shop ''pulse x'' []) = Inr [dA]
   \<and> snd (fetch_product_details shop ''https://shop/a'' None) = Inr (Some dA)
   \<and> length [dA] \<le> 1"
proof -
  have nonempty: "redirects (search_url_of ''pulse x'')
     [\<lparr>url = search_url_of ''pulse x'', status = 302, headers = [(''location'', ''https://shop/a'')]\<rparr>,
      \<lparr>url = ''https://shop/a'', status = 200, headers = []\<rparr>] \<noteq> []"
    by (simp add: redirects_shop)
  show ?thesis
    using C6_redirect_at_most_one [OF search_goto_shop(1) load_state_shop nonempty, of "[]"]
      search_goto_shop(1) fetch_product_details_shop
    by (simp add: redirects_shop)
qed

text \<open>
  As claim C6 is stated, the element comes from the redirect target URL. Searching
  \<open>bare\<close> on the example site answers 301 with no \<open>location\<close> header: there is a
  redirect and no target, yet one product is returned, and the trace shows that it was
  extracted from the search URL.
\<close>

theorem C6_no_redirect_target_counterexample:
  "search_goto_outcome shop (search_url_of ''bare'')
     = Inr [\<lparr>url = search_url_of ''bare'', status = 301, headers = []\<rparr>]
   \<and> redirects (search_url_of ''bare'')
       [\<lparr>url = search_url_of ''bare'', status = 301, headers = []\<rparr>]
       = [\<lparr>url = search_url_of ''bare'', status = 301, headers = []\<rparr>]
   \<and> map_of (headers \<lparr>url = search_url_of ''bare'', status = 301, headers = []\<rparr>) ''location''
       = None
   \<and> search_and_scrape shop ''bare'' []
       = ([Goto (search_url_of ''bare''), Wait_for_load_state,
           Goto (search_url_of ''bare''), Wheel 0 3000,
           Query_data (search_url_of ''bare'') PRODUCT_DETAIL_QUERY,
           Query_data (search_url_of ''bare'') PRODUCT_INFO_QUERY],
          Inr [dA])"
proof -
  have extraction: "fetch_product_details shop (search_url_of ''bare'') None
      = ([Goto (search_url_of ''bare''), Wheel 0 3000,
          Query_data (search_url_of ''bare'') PRODUCT_DETAIL_QUERY,
          Query_data (search_url_of ''bare'') PRODUCT_INFO_QUERY], Inr (Some dA))"
    by (simp add: fetch_product_details_def fetch_product_details_try_def io_bind_def
        try_except_def io_simps shop_def ProductBase_kwargs_def ProductDetails_kwargs_def
        ProductBase_dict_def dict_get_def dA_def search_url_of_examples)
  have "search_and_scrape shop ''bare'' []
      = ([Goto (search_url_of ''bare''), Wait_for_load_state,
          Goto (search_url_of ''bare''), Wheel 0 3000,
          Query_data (search_url_of ''bare'') PRODUCT_DETAIL_QUERY,
          Query_data (search_url_of ''bare'') PRODUCT_INFO_QUERY],
         Inr [dA])"
    by (simp add: search_and_scrape_result [OF search_goto_shop(2) load_state_shop]
        redirects_shop(2) extraction io_bind_def io_return_def)
  then show ?thesis
    using search_goto_shop(2) redirects_shop(2) by simp
qed

text \<open>
  Claim C10: if the redirect response of the search URL carries no \<open>location\<close> header,
  the redirect branch is taken all the same, and detail extraction is attempted on the
  search URL itself.
\<close>

theorem C10_redirect_without_location:
  assumes "search_goto_outcome w (search_url_of kw) = Inr rs"
    and "load_state_outcome w (search_url_of kw) = None"
    and "redirects (search_url_of kw) rs \<noteq> []"
    and "map_of (headers (last (redirects (search_url_of kw) rs))) ''location'' = None"
  shows "fst (search_and_scrape w kw ex)
           = [Goto (search_url_of kw), Wait_for_load_state]
               @ fst (fetch_product_details w (search_url_of kw) None)
       \<and> snd (search_and_scrape w kw ex)
           = (case snd (fetch_product_details w (search_url_of kw) None) of
                Inl e \<Rightarrow> Inl e
              | Inr None \<Rightarrow> Inr []
              | Inr (Some d) \<Rightarrow> Inr [d])"
  by (simp add: search_and_scrape_result [OF assms(1,2)] assms(3,4) io_simps
      split: sum.splits option.splits)

theorem C10_redirect_without_location_witness:
  "search_goto_outcome shop (search_url_of ''bare'')
     = Inr [\<lparr>url = search_url_of ''bare'', status = 301, headers = []\<rparr>]
   \<and> redirects (search_url_of ''bare'')
       [\<lparr>url = search_url_of ''bare'', status = 301, headers = []\<rparr>]
       = [\<lparr>url = search_url_of ''bare'', status = 301, headers = []\<rparr>]
   \<and> snd (fetch_product_details shop (search_url_of ''bare'') None) = Inr (Some dA)
   \<and> snd (search_and_scrape shop ''bare'' []) = Inr [dA]"
proof -
  have nonempty: "redirects (search_url_of ''bare'')
      [\<lparr>url = search_url_of ''bare'', status = 301, headers = []\<rparr>] \<noteq> []"
    by (simp add: redirects_shop)
  have bare: "map_of (headers (last (redirects (search_url_of ''bare'')
      [\<lparr>url = search_url_of ''bare'', status = 301, headers = []\<rparr>]))) ''location'' = None"
    by (simp add: redirects_shop)
  show ?thesis
    using C10_redirect_without_location [OF search_goto_shop(2) load_state_shop nonempty bare,
        of "[]"]
      search_goto_shop(2) redirects_shop(2) fetch_product_details_shop_bare
    by simp
qed

section \<open>Search without a redirect\<close>

text \<open>
  Claim C7: when navigating to the search URL yields no redirect, \<open>search_and_scrape\<close>
  returns, or raises, what \<open>get_names_and_fetch\<close> does on that search URL with the same
  \<open>existing_product_names\<close>; its trace is the navigation followed by that of
  \<open>get_names_and_fetch\<close>.
\<close>

theorem C7_no_redirect_is_listing_flow:
  assumes "search_goto_outcome w (search_url_of kw) = Inr rs"
    and "load_state_outcome w (search_url_of kw) = None"
    and "redirects (search_url_of kw) rs = []"
  shows "snd (search_and_scrape w kw ex) = snd (get_names_and_fetch w (search_url_of kw) ex)
       \<and> fst (search_and_scrape w kw ex)
           = [Goto (search_url_of kw), Wait_for_load_state]
               @ fst (get_names_and_fetch w (search_url_of kw) ex)"
  by (simp add: search_and_scrape_result [OF assms(1,2)] assms(3) io_simps)

theorem C7_no_redirect_witness:
  "search_goto_outcome shop (search_url_of ''vape'')
     = Inr [\<lparr>url = search_url_of ''vape'', status = 200, headers = []\<rparr>]
   \<and> redirects (search_url_of ''vape'')
       [\<lparr>url = search_url_of ''vape'', status = 200, headers = []\<rparr>] = []
   \<and> snd (search_and_scrape shop ''vape'' [''C'']) = Inr [dA]
   \<and> snd (get_names_and_fetch shop (search_url_of ''vape'') [''C'']) = Inr [dA]"
  using C7_no_redirect_is_listing_flow [OF search_goto_shop(3) load_state_shop redirects_shop(3),
      of "[''C'']"]
    search_goto_shop(3) redirects_shop(3) get_names_and_fetch_shop_search
  by simp

section \<open>Scrolling distances\<close>

lemma total_scroll_simps:
  "total_scroll [] = 0"
  "total_scroll (ev # evs) = wheel_dy ev + total_scroll evs"
  "total_scroll (evs @ evs') = total_scroll evs + total_scroll evs'"
  by (simp_all add: total_scroll_def)

lemma detail_try_no_scroll: "total_scroll (fst (fetch_product_details_try w u product)) = 0"
  by (simp add: fetch_product_details_try_def io_simps total_scroll_simps
      split: sum.splits option.splits)

lemma listing_try_no_scroll: "total_scroll (fst (get_product_names_try w u)) = 0"
  by (simp add: get_product_names_try_def io_simps total_scroll_simps Let_def
      split: sum.splits option.splits)

text \<open>
  Claim C8, as amended: a detail extraction whose navigation and scrolling succeed
  scrolls the page down by the fixed distance 3000, a listing extraction by the fixed
  distance 4000; so detail extraction scrolls strictly less far than listing
  extraction.
\<close>

theorem C8_scroll_distances:
  assumes "goto_outcome w u = None" and "wheel_outcome w u 0 3000 = None"
    and "goto_outcome w u' = None" and "wheel_outcome w u' 0 4000 = None"
  shows "total_scroll (fst (fetch_product_details w u product)) = 3000
       \<and> total_scroll (fst (get_product_names w u')) = 4000
       \<and> total_scroll (fst (fetch_product_details w u product))
           < total_scroll (fst (get_product_names w u'))"
  using assms
  by (simp add: fetch_product_details_def get_product_names_def io_simps total_scroll_simps
      detail_try_no_scroll listing_try_no_scroll except_fst
      split: sum.splits option.splits)

theorem C8_scroll_distances_witness:
  "goto_outcome shop ''https://shop/a'' = None \<and> wheel_outcome shop ''https://shop/a'' 0 3000 = None
   \<and> goto_outcome shop ''https://shop/list'' = None
   \<and> wheel_outcome shop ''https://shop/list'' 0 4000 = None
   \<and> total_scroll (fst (fetch_product_details shop ''https://shop/a'' None)) = 3000
   \<and> total_scroll (fst (get_product_names shop ''https://shop/list'')) = 4000"
proof -
  have a: "goto_outcome shop ''https://shop/a'' = None" by (simp add: shop_def)
  have b: "wheel_outcome shop ''https://shop/a'' 0 3000 = None" by (simp add: shop_def)
  have c: "goto_outcome shop ''https://shop/list'' = None" by (simp add: shop_def)
  have d: "wheel_outcome shop ''https://shop/list'' 0 4000 = None" by (simp add: shop_def)
  show ?thesis
    using C8_scroll_distances [OF a b c d, of None] a b c d by simp
qed

text \<open>
  As claim C8 is stated, detail extraction scrolls strictly further than listing
  extraction. On the example site it does not.
\<close>

theorem C8_detail_scrolls_further_counterexample:
  "\<not> total_scroll (fst (fetch_product_details shop ''https://shop/a'' None))
       > total_scroll (fst (get_product_names shop ''https://shop/list''))"
proof -
  have detail: "total_scroll (fst (fetch_product_details shop ''https://shop/a'' None)) = 3000"
    by (simp add: fetch_product_details_shop total_scroll_simps)
  have "fst (get_product_names shop ''https://shop/list'')
      = [Goto ''https://shop/list'', Wheel 0 4000,
         Query_data ''https://shop/list'' PRODUCT_LIST_QUERY]"
    by (simp add: get_product_names_def get_product_names_try_def io_simps shop_def
        response_products_def pA_def pB_def pC_def ProductBase_kwargs_def dict_get_def)
  then have "total_scroll (fst (get_product_names shop ''https://shop/list'')) = 4000"
    by (simp add: total_scroll_simps)
  with detail show ?thesis by simp
qed

end
